theory Spec2Isabelle
  imports
    Complex_Main
    "HOL-Library.AList"
    "HOL-Library.Char_ord"
    "HOL-Library.List_Lexorder"
    "HOL-Library.Product_Lexorder"
begin

section \<open>Syndrome tables for the 7-qubit code (lab-4/generate\_error\_table.py)\<close>

text \<open>
  Python strings are modelled as \<^typ>\<open>string\<close>, exceptions as the left summand of a
  result type, dictionaries as association lists in insertion order (Python dictionaries
  keep the position of a key's first insertion; an assignment to a key that is present
  replaces its value in place, which is what \<^const>\<open>AList.update\<close> does), and standard
  output as the list of the strings handed to \<open>print\<close>, in order.
\<close>

datatype error = ValueError | KeyError | BackendError

subsection \<open>pauli\_commute\<close>

text \<open>The condition of the \<open>if\<close> inside the loop of \<open>pauli_commute\<close>, for one position.\<close>

definition anti_commute_at :: "char \<Rightarrow> char \<Rightarrow> bool" where
  "anti_commute_at p1 p2 \<longleftrightarrow>
     (p1 = CHR ''X'' \<and> p2 \<in> set [CHR ''Y'', CHR ''Z'']) \<or>
     (p1 = CHR ''Y'' \<and> p2 \<in> set [CHR ''X'', CHR ''Z'']) \<or>
     (p1 = CHR ''Z'' \<and> p2 \<in> set [CHR ''X'', CHR ''Y''])"

text \<open>The loop \<open>for p1, p2 in zip(pauli1, pauli2)\<close>, started with the counter at 0.\<close>

definition anti_commute_count :: "string \<Rightarrow> string \<Rightarrow> nat" where
  "anti_commute_count pauli1 pauli2 =
     fold (\<lambda>(p1, p2) c. if anti_commute_at p1 p2 then c + 1 else c) (zip pauli1 pauli2) 0"

definition pauli_commute :: "string \<Rightarrow> string \<Rightarrow> error + bool" where
  "pauli_commute pauli1 pauli2 =
     (if length pauli1 \<noteq> length pauli2 then Inl ValueError
      else Inr (anti_commute_count pauli1 pauli2 mod 2 = 0))"

subsection \<open>The stabilizers and get\_syndrome\<close>

definition stabilizers :: "(string \<times> string) list" where
  "stabilizers =
     [(''S5'', ''ZIZIZIZ''), (''S4'', ''IZZIIZZ''), (''S3'', ''IIIZZZZ''),
      (''S2'', ''XIXIXIX''), (''S1'', ''IXXIIXX''), (''S0'', ''IIIXXXX'')]"

definition stab_names :: "string list" where
  "stab_names = [''S5'', ''S4'', ''S3'', ''S2'', ''S1'', ''S0'']"

text \<open>
  \<open>get_syndrome\<close> is a closure over the local variable \<open>stabilizers\<close>; the model passes
  that dictionary as an argument. The loop appends one character per stabilizer name; a name
  that is not a key raises KeyError, and an error of \<open>pauli_commute\<close> propagates.
\<close>

fun get_syndrome_loop ::
  "(string \<times> string) list \<Rightarrow> string \<Rightarrow> string list \<Rightarrow> string list \<Rightarrow> error + string list" where
  "get_syndrome_loop stabs error_string [] syndrome = Inr syndrome"
| "get_syndrome_loop stabs error_string (stab_name # rest) syndrome =
     (case map_of stabs stab_name of
        None \<Rightarrow> Inl KeyError
      | Some stab_string \<Rightarrow>
          (case pauli_commute error_string stab_string of
             Inl e \<Rightarrow> Inl e
           | Inr commutes \<Rightarrow>
               get_syndrome_loop stabs error_string rest
                 (syndrome @ [if commutes then ''0'' else ''1''])))"

definition get_syndrome :: "(string \<times> string) list \<Rightarrow> string \<Rightarrow> error + string" where
  "get_syndrome stabs error_string =
     (case get_syndrome_loop stabs error_string stab_names [] of
        Inl e \<Rightarrow> Inl e
      | Inr syndrome \<Rightarrow> Inr (concat syndrome))"

text \<open>The alphabet of Pauli strings, used to state properties of \<open>pauli_commute\<close>.\<close>

definition pauli_alphabet :: "char set" where
  "pauli_alphabet = {CHR ''I'', CHR ''X'', CHR ''Y'', CHR ''Z''}"

subsection \<open>generate\_syndrome\_dictionary\<close>

text \<open>The decimal digits of a natural number, as the f-string \<open>f'X{i}'\<close> formats \<open>i\<close>.\<close>

function str_nat :: "nat \<Rightarrow> string" where
  "str_nat n =
     (if n < 10 then [char_of (48 + n)]
      else str_nat (n div 10) @ [char_of (48 + n mod 10)])"
  by pat_completeness auto
termination
  by (relation "measure id") auto

declare str_nat.simps [simp del]

text \<open>
  \<open>error_string = ['I'] * 7; error_string[6-i] = p; ''.join(error_string)\<close>. The loop
  variable ranges over \<open>range(7)\<close>, so \<open>6 - i\<close> is never negative.
\<close>

definition single_error :: "nat \<Rightarrow> char \<Rightarrow> string" where
  "single_error i p = (replicate 7 CHR ''I'')[6 - i := p]"

text \<open>
  The two statements \<open>syndrome = get_syndrome(e); syndrome_dict[syndrome] = label\<close>: an
  unconditional dictionary assignment.
\<close>

definition store_syndrome ::
  "(string \<times> string) list \<Rightarrow> string \<Rightarrow> string \<Rightarrow> (string \<times> string) list
   \<Rightarrow> error + (string \<times> string) list" where
  "store_syndrome stabs error_string label syndrome_dict =
     (case get_syndrome stabs error_string of
        Inl e \<Rightarrow> Inl e
      | Inr syndrome \<Rightarrow> Inr (AList.update syndrome label syndrome_dict))"

text \<open>The body of \<open>for i in range(7)\<close>: the X, the Y and the Z error of qubit \<open>i\<close>.\<close>

definition single_errors_body ::
  "(string \<times> string) list \<Rightarrow> nat \<Rightarrow> (string \<times> string) list
   \<Rightarrow> error + (string \<times> string) list" where
  "single_errors_body stabs i syndrome_dict =
     (case store_syndrome stabs (single_error i CHR ''X'') (CHR ''X'' # str_nat i) syndrome_dict of
        Inl e \<Rightarrow> Inl e
      | Inr d1 \<Rightarrow>
     (case store_syndrome stabs (single_error i CHR ''Y'') (CHR ''Y'' # str_nat i) d1 of
        Inl e \<Rightarrow> Inl e
      | Inr d2 \<Rightarrow>
          store_syndrome stabs (single_error i CHR ''Z'') (CHR ''Z'' # str_nat i) d2))"

fun single_errors_loop ::
  "(string \<times> string) list \<Rightarrow> nat list \<Rightarrow> (string \<times> string) list
   \<Rightarrow> error + (string \<times> string) list" where
  "single_errors_loop stabs [] syndrome_dict = Inr syndrome_dict"
| "single_errors_loop stabs (i # rest) syndrome_dict =
     (case single_errors_body stabs i syndrome_dict of
        Inl e \<Rightarrow> Inl e
      | Inr d \<Rightarrow> single_errors_loop stabs rest d)"

text \<open>
  The body of \<open>generate_syndrome_dictionary\<close> with its local dictionary \<open>stabilizers\<close> as
  an argument, and the function itself, which binds that variable to the reference code.
\<close>

definition syndrome_dictionary_for ::
  "(string \<times> string) list \<Rightarrow> error + (string \<times> string) list" where
  "syndrome_dictionary_for stabs =
     (case single_errors_loop stabs [0..<7] [] of
        Inl e \<Rightarrow> Inl e
      | Inr d \<Rightarrow> store_syndrome stabs ''IIIIIII'' ''I'' d)"

definition generate_syndrome_dictionary :: "error + (string \<times> string) list" where
  "generate_syndrome_dictionary = syndrome_dictionary_for stabilizers"

text \<open>
  The errors in the order in which the loop above handles them, each with its label: used to
  state properties of the table, and related to the loop by a lemma below.
\<close>

definition enumerated_errors :: "(string \<times> string) list" where
  "enumerated_errors =
     concat (map (\<lambda>i. [(CHR ''X'' # str_nat i, single_error i CHR ''X''),
                        (CHR ''Y'' # str_nat i, single_error i CHR ''Y''),
                        (CHR ''Z'' # str_nat i, single_error i CHR ''Z'')]) [0..<7])
     @ [(''I'', ''IIIIIII'')]"

subsection \<open>generate\_x\_error\_table\<close>

text \<open>\<open>sep.join(parts)\<close>.\<close>

fun str_join :: "string \<Rightarrow> string list \<Rightarrow> string" where
  "str_join sep [] = []"
| "str_join sep [x] = x"
| "str_join sep (x # y # ys) = x @ sep @ str_join sep (y # ys)"

text \<open>The dictionary \<open>x_errors\<close>, filled by the first loop of the function.\<close>

definition x_errors :: "(string \<times> string) list" where
  "x_errors =
     fold (\<lambda>i d. AList.update (''X_'' @ str_nat i) (single_error i CHR ''X'') d) [0..<7] []"

definition table_header :: "string list" where
  "table_header =
     [''| Error Code | Error Pauli String | S5(ZIZIZIZ) | S4(IZZIIZZ) | S3 (IIIZZZZ) | S2 (XIXIXIX) | S1 (IXXIIXX) | S0 (IIIXXXX) |'',
      ''|---|---|---|---|---|---|---|---|'']"

text \<open>The inner loop over the stabilizer names, which extends \<open>row_parts\<close>.\<close>

fun row_parts_loop ::
  "(string \<times> string) list \<Rightarrow> string \<Rightarrow> string list \<Rightarrow> string list \<Rightarrow> error + string list" where
  "row_parts_loop stabs error_string [] row_parts = Inr row_parts"
| "row_parts_loop stabs error_string (stab_name # rest) row_parts =
     (case map_of stabs stab_name of
        None \<Rightarrow> Inl KeyError
      | Some stab_string \<Rightarrow>
          (case pauli_commute error_string stab_string of
             Inl e \<Rightarrow> Inl e
           | Inr commutes \<Rightarrow>
               row_parts_loop stabs error_string rest
                 (row_parts @ [if commutes then ''0 (commute)'' else ''1 (anti-commute)''])))"

definition table_row :: "string \<Rightarrow> string \<Rightarrow> error + string" where
  "table_row error_name error_string =
     (case row_parts_loop stabilizers error_string stab_names
             [''$'' @ error_name @ ''$'', error_string] of
        Inl e \<Rightarrow> Inl e
      | Inr row_parts \<Rightarrow> Inr (''| '' @ str_join '' | '' row_parts @ '' |''))"

text \<open>The loop over \<open>x_errors.items()\<close>; \<open>out\<close> is what has been printed so far.\<close>

fun table_rows :: "(string \<times> string) list \<Rightarrow> string list \<Rightarrow> error + string list" where
  "table_rows [] out = Inr out"
| "table_rows ((error_name, error_string) # rest) out =
     (case table_row error_name error_string of
        Inl e \<Rightarrow> Inl e
      | Inr row \<Rightarrow> table_rows rest (out @ [row]))"

definition generate_x_error_table :: "error + string list" where
  "generate_x_error_table = table_rows x_errors table_header"

subsection \<open>The script's main block\<close>

text \<open>
  \<open>sorted(syndrome_dict.items())\<close> sorts the pairs by Python's tuple order: the keys by code
  point, lexicographically, then the values. That is the order of \<^typ>\<open>string \<times> string\<close>
  here (characters by code, lists and pairs lexicographically).
\<close>

definition dictionary_line :: "nat \<Rightarrow> nat \<Rightarrow> string \<times> string \<Rightarrow> string" where
  "dictionary_line len i kv =
     (case kv of (syndrome, error) \<Rightarrow>
        (let comma = (if i < len - 1 then '','' else [])
         in ''    '' @ [CHR 0x27] @ syndrome @ [CHR 0x27] @ '': '' @ [CHR 0x27] @ error
            @ [CHR 0x27] @ comma))"

definition dictionary_lines :: "(string \<times> string) list \<Rightarrow> string list" where
  "dictionary_lines syndrome_dict =
     (let sorted_syndromes = sort syndrome_dict
      in [''{'']
         @ map (\<lambda>(i, kv). dictionary_line (length sorted_syndromes) i kv)
             (enumerate 0 sorted_syndromes)
         @ [''}''])"

definition main :: "error + string list" where
  "main =
     (case generate_x_error_table of
        Inl e \<Rightarrow> Inl e
      | Inr table_out \<Rightarrow>
          (case generate_syndrome_dictionary of
             Inl e \<Rightarrow> Inl e
           | Inr syndrome_dict \<Rightarrow>
               Inr (table_out
                    @ [CHR 0x0A # replicate 50 CHR ''='', ''SYNDROME DICTIONARY'',
                       replicate 50 CHR ''='']
                    @ dictionary_lines syndrome_dict)))"

subsection \<open>Auxiliary definitions for the statements about the table\<close>


section \<open>Accumulated errors (lab-2/test\_accumulated\_errors.py)\<close>

text \<open>
  The backend and the circuit are objects of an external library; the model keeps what
  \<open>accumulated_errors\<close> reads from them. A Python number is an \<open>int\<close> or a \<open>float\<close>;
  the values of floats are modelled by reals, and the rounding of float addition is not
  modelled. A lookup of the properties object that raises is \<open>None\<close>. The qubits of an
  instruction are given by their indices in the circuit (the result of \<open>find_bit\<close>).
\<close>

datatype number = PyInt int | PyFloat real

fun number_value :: "number \<Rightarrow> real" where
  "number_value (PyInt i) = of_int i"
| "number_value (PyFloat x) = x"

fun number_add :: "number \<Rightarrow> number \<Rightarrow> number" where
  "number_add (PyInt i) (PyInt j) = PyInt (i + j)"
| "number_add a b = PyFloat (number_value a + number_value b)"

record gate_parameter =
  param_name :: string
  param_value :: real

record gate_record =
  gate :: string
  gate_qubits :: "nat list"
  parameters :: "gate_parameter list"

record backend_properties =
  readout_error :: "nat \<Rightarrow> real option"
  gate_error :: "string \<Rightarrow> nat \<Rightarrow> real option"
  gates :: "gate_record list"

record backend =
  properties :: "backend_properties option"

record instruction =
  operation_name :: string
  qubits :: "nat list"

record circuit =
  num_qubits :: nat
  data :: "instruction list"

record accumulator =
  acc_single_qubit_error :: number
  acc_two_qubit_error :: number
  single_qubit_gate_count :: int
  two_qubit_gate_count :: int
  acc_readout_error :: number

text \<open>The loop \<open>for qubit in qubit_layout\<close>; an error of \<open>readout_error\<close> propagates.\<close>

fun readout_loop :: "backend_properties \<Rightarrow> nat list \<Rightarrow> accumulator \<Rightarrow> error + accumulator" where
  "readout_loop props [] acc = Inr acc"
| "readout_loop props (qubit # rest) acc =
     (case readout_error props qubit of
        None \<Rightarrow> Inl BackendError
      | Some r \<Rightarrow>
          readout_loop props rest
            (acc\<lparr>acc_readout_error := number_add (acc_readout_error acc) (PyFloat r)\<rparr>))"

text \<open>
  The search \<open>for gate in properties.gates\<close>: the first record of that gate on those qubits
  that has a parameter named \<open>gate_error\<close> gives the value of its first such parameter.
\<close>

fun find_gate_error :: "gate_record list \<Rightarrow> string \<Rightarrow> nat list \<Rightarrow> real option" where
  "find_gate_error [] name physical_qubits = None"
| "find_gate_error (g # rest) name physical_qubits =
     (if gate g = name \<and> gate_qubits g = physical_qubits then
        (case find (\<lambda>param. param_name param = ''gate_error'') (parameters g) of
           Some param \<Rightarrow> Some (param_value param)
         | None \<Rightarrow> find_gate_error rest name physical_qubits)
      else find_gate_error rest name physical_qubits)"

text \<open>The body of \<open>for instruction in circuit.data\<close>.\<close>

definition instruction_step ::
  "backend_properties \<Rightarrow> nat list \<Rightarrow> instruction \<Rightarrow> accumulator \<Rightarrow> accumulator" where
  "instruction_step props qubit_layout instr acc =
     (if operation_name instr = ''measure'' then acc
      else
        (case qubits instr of
           [logical_index] \<Rightarrow>
             (let acc1 = acc\<lparr>single_qubit_gate_count := single_qubit_gate_count acc + 1\<rparr>
              in if logical_index < length qubit_layout then
                   (case gate_error props (operation_name instr) (qubit_layout ! logical_index) of
                      Some v \<Rightarrow>
                        acc1\<lparr>acc_single_qubit_error :=
                               number_add (acc_single_qubit_error acc1) (PyFloat v)\<rparr>
                    | None \<Rightarrow> acc1)
                 else acc1)
         | [l0, l1] \<Rightarrow>
             (let acc1 = acc\<lparr>two_qubit_gate_count := two_qubit_gate_count acc + 1\<rparr>
              in if list_all (\<lambda>idx. idx < length qubit_layout) [l0, l1] then
                   (case find_gate_error (gates props) (operation_name instr)
                           (map (\<lambda>idx. qubit_layout ! idx) [l0, l1]) of
                      Some v \<Rightarrow>
                        acc1\<lparr>acc_two_qubit_error :=
                               number_add (acc_two_qubit_error acc1) (PyFloat v)\<rparr>
                    | None \<Rightarrow> acc1)
                 else acc1)
         | _ \<Rightarrow> acc))"

definition accumulated_errors :: "backend \<Rightarrow> circuit \<Rightarrow> error + number list" where
  "accumulated_errors backend circuit =
     (let acc0 = \<lparr>acc_single_qubit_error = PyInt 0, acc_two_qubit_error = PyInt 0,
                  single_qubit_gate_count = 0, two_qubit_gate_count = 0,
                  acc_readout_error = PyInt 0\<rparr>
      in case properties backend of
           None \<Rightarrow> Inr [PyInt 0, PyInt 0, PyInt 0, PyInt 0, PyInt 0, PyInt 0]
         | Some props \<Rightarrow>
             (let n = num_qubits circuit; qubit_layout = [0..<n]
              in case readout_loop props qubit_layout acc0 of
                   Inl e \<Rightarrow> Inl e
                 | Inr acc1 \<Rightarrow>
                     (let acc2 = fold (instruction_step props qubit_layout) (data circuit) acc1;
                          acc_total_error =
                            number_add
                              (number_add (acc_two_qubit_error acc2) (acc_single_qubit_error acc2))
                              (acc_readout_error acc2)
                      in Inr [acc_total_error, acc_two_qubit_error acc2,
                              acc_single_qubit_error acc2, acc_readout_error acc2,
                              PyInt (single_qubit_gate_count acc2),
                              PyInt (two_qubit_gate_count acc2)])))"

section \<open>Properties of pauli\_commute\<close>

lemma anti_commute_at_sym: "anti_commute_at p q = anti_commute_at q p"
  by (auto simp: anti_commute_at_def)

lemma fold_count_filter:
  "fold (\<lambda>x c. if P x then c + 1 else c) xs (k::nat) = k + length (filter P xs)"
  by (induction xs arbitrary: k) auto

lemma anti_commute_count_filter:
  "anti_commute_count a b = length (filter (\<lambda>(p, q). anti_commute_at p q) (zip a b))"
proof -
  have "(\<lambda>(p1, p2) c. if anti_commute_at p1 p2 then c + 1 else c)
      = (\<lambda>x (c::nat). if (\<lambda>(p, q). anti_commute_at p q) x then c + 1 else c)"
    by (simp add: fun_eq_iff split: prod.splits)
  then show ?thesis
    unfolding anti_commute_count_def by (simp only: fold_count_filter)
qed

lemma filter_zip_swap:
  "length (filter (\<lambda>(p, q). R q p) (zip b a)) = length (filter (\<lambda>(p, q). R p q) (zip a b))"
proof (induction a arbitrary: b)
  case Nil
  then show ?case by simp
next
  case (Cons x a)
  then show ?case by (cases b) auto
qed

lemma anti_commute_count_sym: "anti_commute_count a b = anti_commute_count b a"
proof -
  have "anti_commute_count b a = length (filter (\<lambda>(p, q). anti_commute_at q p) (zip b a))"
    by (simp add: anti_commute_count_filter anti_commute_at_sym)
  also have "\<dots> = length (filter (\<lambda>(p, q). anti_commute_at p q) (zip a b))"
    by (rule filter_zip_swap)
  finally show ?thesis by (simp add: anti_commute_count_filter)
qed

text \<open>
  C8. The commutation test is symmetric: for Pauli strings \<open>a\<close> and \<open>b\<close> of equal length,
  \<open>pauli_commute a b\<close> and \<open>pauli_commute b a\<close> return the same value.
\<close>

theorem pauli_commute_symmetric:
  "length a = length b \<Longrightarrow> pauli_commute a b = pauli_commute b a"
  by (simp add: pauli_commute_def anti_commute_count_sym)

theorem pauli_commute_symmetric_witness:
  "length ''XIZ'' = length ''ZZY'' \<and> pauli_commute ''XIZ'' ''ZZY'' = pauli_commute ''ZZY'' ''XIZ''
   \<and> pauli_commute ''XIZ'' ''ZZY'' = Inr True"
proof -
  have h: "length ''XIZ'' = length ''ZZY''" by simp
  have v: "pauli_commute ''XIZ'' ''ZZY'' = Inr True" by code_simp
  show ?thesis using h v pauli_commute_symmetric [OF h] by simp
qed

text \<open>
  C5. \<open>pauli_commute\<close> raises (a ValueError, the spec's LengthMismatch) exactly when its two
  arguments have different lengths: with equal lengths it returns a truth value, with unequal
  lengths it returns no truth value at all, so nothing is compared on a truncated string.
\<close>

theorem pauli_commute_raises_iff:
  "(pauli_commute a b = Inl ValueError \<longleftrightarrow> length a \<noteq> length b) \<and>
   ((\<exists>e. pauli_commute a b = Inl e) \<longleftrightarrow> length a \<noteq> length b) \<and>
   ((\<exists>r. pauli_commute a b = Inr r) \<longleftrightarrow> length a = length b)"
  by (simp add: pauli_commute_def)

theorem pauli_commute_raises_iff_witness:
  "pauli_commute ''XZ'' ''XZY'' = Inl ValueError \<and> length ''XZ'' \<noteq> length ''XZY'' \<and>
   (\<exists>r. pauli_commute ''XZY'' ''ZZY'' = Inr r) \<and> length ''XZY'' = length ''ZZY''"
  using pauli_commute_raises_iff [of "''XZ''" "''XZY''"]
    pauli_commute_raises_iff [of "''XZY''" "''ZZY''"]
  by simp

lemma anti_commute_at_alphabet:
  "p \<in> pauli_alphabet \<Longrightarrow> q \<in> pauli_alphabet \<Longrightarrow>
   anti_commute_at p q \<longleftrightarrow> p \<noteq> CHR ''I'' \<and> q \<noteq> CHR ''I'' \<and> p \<noteq> q"
  by (auto simp: anti_commute_at_def pauli_alphabet_def)

lemma anti_commute_count_card:
  assumes "length a = length b"
  shows "anti_commute_count a b = card {i. i < length a \<and> anti_commute_at (a ! i) (b ! i)}"
proof -
  have "anti_commute_count a b
      = card {i. i < length (zip a b) \<and> (\<lambda>(p, q). anti_commute_at p q) (zip a b ! i)}"
    by (simp only: anti_commute_count_filter length_filter_conv_card)
  also have "{i. i < length (zip a b) \<and> (\<lambda>(p, q). anti_commute_at p q) (zip a b ! i)}
      = {i. i < length a \<and> anti_commute_at (a ! i) (b ! i)}"
    using assms by auto
  finally show ?thesis .
qed

text \<open>
  C4. For equal-length strings over the alphabet I, X, Y, Z, \<open>pauli_commute\<close> returns True
  exactly when the number of positions at which both characters are not I and differ from
  each other is even.
\<close>

theorem pauli_commute_parity:
  assumes "set a \<subseteq> pauli_alphabet" and "set b \<subseteq> pauli_alphabet" and "length a = length b"
  shows "pauli_commute a b =
    Inr (even (card {i. i < length a \<and> a ! i \<noteq> CHR ''I'' \<and> b ! i \<noteq> CHR ''I'' \<and> a ! i \<noteq> b ! i}))"
proof -
  have "{i. i < length a \<and> anti_commute_at (a ! i) (b ! i)}
      = {i. i < length a \<and> a ! i \<noteq> CHR ''I'' \<and> b ! i \<noteq> CHR ''I'' \<and> a ! i \<noteq> b ! i}"
  proof -
    have "anti_commute_at (a ! i) (b ! i) \<longleftrightarrow>
          a ! i \<noteq> CHR ''I'' \<and> b ! i \<noteq> CHR ''I'' \<and> a ! i \<noteq> b ! i" if "i < length a" for i
    proof -
      from that assms have "a ! i \<in> pauli_alphabet" and "b ! i \<in> pauli_alphabet"
        using nth_mem by (metis subsetD)+
      then show ?thesis by (rule anti_commute_at_alphabet)
    qed
    then show ?thesis by blast
  qed
  with assms(3) show ?thesis
    by (simp add: pauli_commute_def anti_commute_count_card even_iff_mod_2_eq_zero)
qed

theorem pauli_commute_parity_witness:
  "set ''XIZY'' \<subseteq> pauli_alphabet \<and> set ''ZZYY'' \<subseteq> pauli_alphabet \<and>
   length ''XIZY'' = length ''ZZYY'' \<and>
   pauli_commute ''XIZY'' ''ZZYY'' =
     Inr (even (card {i. i < length ''XIZY'' \<and> ''XIZY'' ! i \<noteq> CHR ''I'' \<and>
                         ''ZZYY'' ! i \<noteq> CHR ''I'' \<and> ''XIZY'' ! i \<noteq> ''ZZYY'' ! i})) \<and>
   pauli_commute ''XIZY'' ''ZZYY'' = Inr True"
proof -
  have h1: "set ''XIZY'' \<subseteq> pauli_alphabet" by (simp add: pauli_alphabet_def)
  have h2: "set ''ZZYY'' \<subseteq> pauli_alphabet" by (simp add: pauli_alphabet_def)
  have h3: "length ''XIZY'' = length ''ZZYY''" by simp
  have v: "pauli_commute ''XIZY'' ''ZZYY'' = Inr True" by code_simp
  from pauli_commute_parity [OF h1 h2 h3] h1 h2 h3 v show ?thesis by simp
qed

text \<open>
  C7. The six reference generators commute pairwise: for every two values \<open>Si\<close>, \<open>Sj\<close> of
  the stabilizer dictionary, \<open>pauli_commute Si Sj\<close> returns True.
\<close>

theorem stabilizers_commute:
  "\<forall>si \<in> set (map snd stabilizers). \<forall>sj \<in> set (map snd stabilizers).
     pauli_commute si sj = Inr True"
  by code_simp

theorem stabilizers_commute_witness:
  "''ZIZIZIZ'' \<in> set (map snd stabilizers) \<and> ''IXXIIXX'' \<in> set (map snd stabilizers) \<and>
   pauli_commute ''ZIZIZIZ'' ''IXXIIXX'' = Inr True"
proof -
  have h1: "''ZIZIZIZ'' \<in> set (map snd stabilizers)" by (simp add: stabilizers_def)
  have h2: "''IXXIIXX'' \<in> set (map snd stabilizers)" by (simp add: stabilizers_def)
  from stabilizers_commute [rule_format, OF h1 h2] h1 h2 show ?thesis by simp
qed

section \<open>Properties of the syndrome table\<close>

subsection \<open>The loops store the enumerated errors in order\<close>




subsection \<open>The values computed for the reference code\<close>

lemma enumerated_errors_value: "enumerated_errors =
  [(''X0'', ''IIIIIIX''), (''Y0'', ''IIIIIIY''), (''Z0'', ''IIIIIIZ''),
  (''X1'', ''IIIIIXI''), (''Y1'', ''IIIIIYI''), (''Z1'', ''IIIIIZI''),
  (''X2'', ''IIIIXII''), (''Y2'', ''IIIIYII''), (''Z2'', ''IIIIZII''),
  (''X3'', ''IIIXIII''), (''Y3'', ''IIIYIII''), (''Z3'', ''IIIZIII''),
  (''X4'', ''IIXIIII''), (''Y4'', ''IIYIIII''), (''Z4'', ''IIZIIII''),
  (''X5'', ''IXIIIII''), (''Y5'', ''IYIIIII''), (''Z5'', ''IZIIIII''),
  (''X6'', ''XIIIIII''), (''Y6'', ''YIIIIII''), (''Z6'', ''ZIIIIII''),
  (''I'', ''IIIIIII'')]"
  by code_simp

lemma generate_syndrome_dictionary_value: "generate_syndrome_dictionary =
 Inr [(''111000'', ''X0''), (''111111'', ''Y0''), (''000111'', ''Z0''),
      (''011000'', ''X1''), (''011011'', ''Y1''), (''000011'', ''Z1''),
      (''101000'', ''X2''), (''101101'', ''Y2''), (''000101'', ''Z2''),
      (''001000'', ''X3''), (''001001'', ''Y3''), (''000001'', ''Z3''),
      (''110000'', ''X4''), (''110110'', ''Y4''), (''000110'', ''Z4''),
      (''010000'', ''X5''), (''010010'', ''Y5''), (''000010'', ''Z5''),
      (''100000'', ''X6''), (''100100'', ''Y6''), (''000100'', ''Z6''),
      (''000000'', ''I'')]"
  by code_simp

lemma reference_syndromes_value:
  "map (\<lambda>(l, e). get_syndrome stabilizers e) enumerated_errors =
   map Inr [''111000'', ''111111'', ''000111'', ''011000'', ''011011'', ''000011'',
            ''101000'', ''101101'', ''000101'', ''001000'', ''001001'', ''000001'',
            ''110000'', ''110110'', ''000110'', ''010000'', ''010010'', ''000010'',
            ''100000'', ''100100'', ''000100'', ''000000'']"
  by code_simp

lemma generate_x_error_table_value:
  "generate_x_error_table = Inr (table_header @
     [''| $X_0$ | IIIIIIX | 1 (anti-commute) | 1 (anti-commute) | 1 (anti-commute) | 0 (commute) | 0 (commute) | 0 (commute) |'',
      ''| $X_1$ | IIIIIXI | 0 (commute) | 1 (anti-commute) | 1 (anti-commute) | 0 (commute) | 0 (commute) | 0 (commute) |'',
      ''| $X_2$ | IIIIXII | 1 (anti-commute) | 0 (commute) | 1 (anti-commute) | 0 (commute) | 0 (commute) | 0 (commute) |'',
      ''| $X_3$ | IIIXIII | 0 (commute) | 0 (commute) | 1 (anti-commute) | 0 (commute) | 0 (commute) | 0 (commute) |'',
      ''| $X_4$ | IIXIIII | 1 (anti-commute) | 1 (anti-commute) | 0 (commute) | 0 (commute) | 0 (commute) | 0 (commute) |'',
      ''| $X_5$ | IXIIIII | 0 (commute) | 1 (anti-commute) | 0 (commute) | 0 (commute) | 0 (commute) | 0 (commute) |'',
      ''| $X_6$ | XIIIIII | 1 (anti-commute) | 0 (commute) | 0 (commute) | 0 (commute) | 0 (commute) | 0 (commute) |''])"
  by code_simp

subsection \<open>The table of the reference code\<close>

text \<open>
  C1. For the reference code the 22 enumerated errors (21 single-qubit X, Y and Z errors and
  the identity) have 22 pairwise distinct syndromes, and the dictionary that
  \<open>generate_syndrome_dictionary\<close> returns has 22 entries with distinct keys: its entries are,
  in order, the syndromes of the enumerated errors with their labels, so no assignment met
  a key that was already present.
\<close>

theorem reference_table_no_collisions:
  "length enumerated_errors = 22 \<and>
   distinct (map (\<lambda>(l, e). get_syndrome stabilizers e) enumerated_errors) \<and>
   (\<exists>d. generate_syndrome_dictionary = Inr d \<and> length d = 22 \<and> distinct (map fst d) \<and>
        map (\<lambda>(l, e). get_syndrome stabilizers e) enumerated_errors = map (\<lambda>(s, l). Inr s) d \<and>
        map fst enumerated_errors = map snd d)"
proof -
  have len: "length enumerated_errors = 22"
    by (simp add: enumerated_errors_value)
  have dist: "distinct (map (\<lambda>(l, e). get_syndrome stabilizers e) enumerated_errors)"
    unfolding reference_syndromes_value by (simp add: distinct_map)
  have keys: "map (\<lambda>(l, e). get_syndrome stabilizers e) enumerated_errors
      = map (\<lambda>(s, l). Inr s) (projr generate_syndrome_dictionary)"
    unfolding reference_syndromes_value generate_syndrome_dictionary_value by simp
  have labels: "map fst enumerated_errors = map snd (projr generate_syndrome_dictionary)"
    unfolding enumerated_errors_value generate_syndrome_dictionary_value by simp
  have dk: "distinct (map fst (projr generate_syndrome_dictionary))"
    unfolding generate_syndrome_dictionary_value by simp
  have ld: "length (projr generate_syndrome_dictionary) = 22"
    unfolding generate_syndrome_dictionary_value by simp
  have r: "generate_syndrome_dictionary = Inr (projr generate_syndrome_dictionary)"
    unfolding generate_syndrome_dictionary_value by simp
  from len dist keys labels dk ld r show ?thesis by blast
qed

text \<open>
  C6. Round trip: for every enumerated error of the reference code, its syndrome is a key of
  the dictionary that \<open>generate_syndrome_dictionary\<close> returns, and the value stored there is
  that error's label.
\<close>

theorem lookup_round_trip:
  "\<forall>(l, e) \<in> set enumerated_errors.
     \<exists>s d. get_syndrome stabilizers e = Inr s \<and> generate_syndrome_dictionary = Inr d \<and>
           map_of d s = Some l"
proof -
  have "\<forall>(l, e) \<in> set enumerated_errors.
          (case get_syndrome stabilizers e of
             Inl err \<Rightarrow> False
           | Inr s \<Rightarrow> map_of (projr generate_syndrome_dictionary) s = Some l)"
    unfolding generate_syndrome_dictionary_value enumerated_errors_value by code_simp
  moreover have "generate_syndrome_dictionary = Inr (projr generate_syndrome_dictionary)"
    unfolding generate_syndrome_dictionary_value by simp
  ultimately show ?thesis
    by (fastforce split: sum.splits)
qed

theorem lookup_round_trip_witness:
  "(''Y3'', ''IIIYIII'') \<in> set enumerated_errors \<and>
   (\<exists>s d. get_syndrome stabilizers ''IIIYIII'' = Inr s \<and> generate_syndrome_dictionary = Inr d \<and>
          map_of d s = Some ''Y3'')"
proof -
  have h: "(''Y3'', ''IIIYIII'') \<in> set enumerated_errors"
    by (simp add: enumerated_errors_value)
  from bspec [OF lookup_round_trip h] h show ?thesis by simp
qed

subsection \<open>No syndrome is stored twice: the first label is kept\<close>






subsection \<open>The printed commutation table\<close>

text \<open>
  C3, as stated, fails: \<open>generate_x_error_table\<close> prints, after the two header lines,
  7 rows, while 22 errors are enumerated for the dictionary.
\<close>

theorem x_error_table_row_count:
  "\<not> isl generate_x_error_table \<and>
   length (drop (length table_header) (projr generate_x_error_table)) = 7 \<and>
   length enumerated_errors = 22"
  unfolding generate_x_error_table_value by (simp add: enumerated_errors_value)

text \<open>
  C3, amended. The rendered table has one row for each of the 7 single-qubit X errors, in
  ascending qubit index \<open>i\<close>; the row gives the label \<open>$X_i$\<close>, the Pauli string and, for
  each generator in the order S5 to S0, \<open>0 (commute)\<close> or \<open>1 (anti-commute)\<close>.
\<close>

theorem x_error_table_rows:
  "\<exists>rows. generate_x_error_table = Inr (table_header @ rows) \<and> length rows = 7 \<and>
     (\<forall>i<7. rows ! i =
        ''| '' @ str_join '' | ''
          ([''$X_'' @ str_nat i @ ''$'', single_error i CHR ''X'']
           @ map (\<lambda>g. if pauli_commute (single_error i CHR ''X'') g = Inr True
                       then ''0 (commute)'' else ''1 (anti-commute)'')
               (map snd stabilizers))
        @ '' |'')"
proof -
  define rows where "rows = drop (length table_header) (projr generate_x_error_table)"
  have r: "generate_x_error_table = Inr (table_header @ rows)"
    unfolding rows_def generate_x_error_table_value by simp
  have l: "length rows = 7"
    unfolding rows_def generate_x_error_table_value by simp
  have "\<forall>i \<in> set [0..<7].
     drop (length table_header) (projr generate_x_error_table) ! i =
        ''| '' @ str_join '' | ''
          ([''$X_'' @ str_nat i @ ''$'', single_error i CHR ''X'']
           @ map (\<lambda>g. if pauli_commute (single_error i CHR ''X'') g = Inr True
                       then ''0 (commute)'' else ''1 (anti-commute)'')
               (map snd stabilizers))
        @ '' |''"
    unfolding generate_x_error_table_value by code_simp
  then have "\<forall>i<7. rows ! i =
        ''| '' @ str_join '' | ''
          ([''$X_'' @ str_nat i @ ''$'', single_error i CHR ''X'']
           @ map (\<lambda>g. if pauli_commute (single_error i CHR ''X'') g = Inr True
                       then ''0 (commute)'' else ''1 (anti-commute)'')
               (map snd stabilizers))
        @ '' |''"
    unfolding rows_def by simp
  with r l show ?thesis by blast
qed

theorem x_error_table_rows_witness:
  "\<exists>rows. generate_x_error_table = Inr (table_header @ rows) \<and> length rows = 7 \<and>
     (3::nat) < 7 \<and>
     rows ! 3 = ''| $X_3$ | IIIXIII | 0 (commute) | 0 (commute) | 1 (anti-commute) | 0 (commute) | 0 (commute) | 0 (commute) |''"
proof -
  have v: "''| '' @ str_join '' | ''
          ([''$X_'' @ str_nat 3 @ ''$'', single_error 3 CHR ''X'']
           @ map (\<lambda>g. if pauli_commute (single_error 3 CHR ''X'') g = Inr True
                       then ''0 (commute)'' else ''1 (anti-commute)'')
               (map snd stabilizers))
        @ '' |'' = ''| $X_3$ | IIIXIII | 0 (commute) | 0 (commute) | 1 (anti-commute) | 0 (commute) | 0 (commute) | 0 (commute) |''"
    by code_simp
  from x_error_table_rows obtain rows where
    r: "generate_x_error_table = Inr (table_header @ rows)" and l: "length rows = 7" and
    a: "\<forall>i<7. rows ! i =
        ''| '' @ str_join '' | ''
          ([''$X_'' @ str_nat i @ ''$'', single_error i CHR ''X'']
           @ map (\<lambda>g. if pauli_commute (single_error i CHR ''X'') g = Inr True
                       then ''0 (commute)'' else ''1 (anti-commute)'')
               (map snd stabilizers))
        @ '' |''"
    by blast
  have h: "(3::nat) < 7" by simp
  from a [rule_format, OF h] have "rows ! 3 = ''| $X_3$ | IIIXIII | 0 (commute) | 0 (commute) | 1 (anti-commute) | 0 (commute) | 0 (commute) | 0 (commute) |''"
    unfolding v .
  with r l h show ?thesis by blast
qed

subsection \<open>The printed dictionary\<close>

lemma sorted_fst_sort: "sorted (map fst (sort (kvs :: (string \<times> string) list)))"
proof -
  have "sorted_wrt (\<le>) (sort kvs)" by simp
  then have "sorted_wrt (\<lambda>a b. fst a \<le> fst b) (sort kvs)"
    by (rule sorted_wrt_mono_rel [rotated]) (auto simp: less_eq_prod_def)
  then show ?thesis by (simp add: sorted_wrt_map)
qed

lemma strict_sorted_fst_sort:
  "distinct (map fst kvs) \<Longrightarrow> sorted_wrt (<) (map fst (sort (kvs :: (string \<times> string) list)))"
  using sorted_fst_sort [of kvs] by (simp add: strict_sorted_iff distinct_map)

lemma map_enumerate_nth:
  "map (\<lambda>(i, x). f i x) (enumerate 0 xs) = map (\<lambda>i. f i (xs ! i)) [0..<length xs]"
  by (rule nth_equalityI) (simp_all add: nth_enumerate_eq)

lemma dictionary_lines_nth:
  "dictionary_lines d =
   [''{''] @ map (\<lambda>i. dictionary_line (length (sort d)) i (sort d ! i)) [0..<length (sort d)]
   @ [''}'']"
  unfolding dictionary_lines_def Let_def by (simp only: map_enumerate_nth)

text \<open>
  C9. After the table and the banner, the script prints the dictionary between the lines
  \<open>{\<close> and \<open>}\<close>: one line for each of the 22 (syndrome, label) pairs of the table, made
  of four spaces, the syndrome in single quotes, a colon and a space, the label in single
  quotes, and a comma on every line but the last; the pairs appear in strictly ascending
  lexicographic order of their syndrome strings.
\<close>

theorem printed_dictionary_sorted:
  "\<exists>pre d kvs.
     main = Inr (pre @ [''{'']
                 @ map (\<lambda>i. ''    '' @ [CHR 0x27] @ fst (kvs ! i) @ [CHR 0x27] @ '': ''
                             @ [CHR 0x27] @ snd (kvs ! i) @ [CHR 0x27]
                             @ (if i < length kvs - 1 then '','' else []))
                     [0..<length kvs]
                 @ [''}'']) \<and>
     generate_syndrome_dictionary = Inr d \<and> set kvs = set d \<and> length kvs = length d \<and>
     length kvs = 22 \<and> sorted_wrt (<) (map fst kvs)"
proof -
  define d where "d = projr generate_syndrome_dictionary"
  have gd: "generate_syndrome_dictionary = Inr d"
    unfolding d_def generate_syndrome_dictionary_value by simp
  have "distinct (map fst d)"
    unfolding d_def generate_syndrome_dictionary_value by simp
  then have s: "sorted_wrt (<) (map fst (sort d))" by (rule strict_sorted_fst_sort)
  have len: "length (sort d) = 22"
    unfolding d_def generate_syndrome_dictionary_value by simp
  have "main = Inr ((projr generate_x_error_table
                    @ [CHR 0x0A # replicate 50 CHR ''='', ''SYNDROME DICTIONARY'',
                       replicate 50 CHR ''=''])
                    @ dictionary_lines d)"
    unfolding main_def gd generate_x_error_table_value by simp
  also have "dictionary_lines d =
     [''{'']
     @ map (\<lambda>i. ''    '' @ [CHR 0x27] @ fst (sort d ! i) @ [CHR 0x27] @ '': ''
                 @ [CHR 0x27] @ snd (sort d ! i) @ [CHR 0x27]
                 @ (if i < length (sort d) - 1 then '','' else []))
         [0..<length (sort d)]
     @ [''}'']"
    unfolding dictionary_lines_nth dictionary_line_def Let_def case_prod_beta ..
  finally have m: "main = Inr ((projr generate_x_error_table
                    @ [CHR 0x0A # replicate 50 CHR ''='', ''SYNDROME DICTIONARY'',
                       replicate 50 CHR ''=''])
     @ [''{'']
     @ map (\<lambda>i. ''    '' @ [CHR 0x27] @ fst (sort d ! i) @ [CHR 0x27] @ '': ''
                 @ [CHR 0x27] @ snd (sort d ! i) @ [CHR 0x27]
                 @ (if i < length (sort d) - 1 then '','' else []))
         [0..<length (sort d)]
     @ [''}''])" .
  have "set (sort d) = set d" "length (sort d) = length d" by simp_all
  with m gd s len show ?thesis by blast
qed

section \<open>Properties of accumulated\_errors\<close>

text \<open>
  C10. If \<open>backend.properties()\<close> is None, \<open>accumulated_errors\<close> returns
  \<open>[0, 0, 0, 0, 0, 0]\<close>, whatever the circuit is.
\<close>

theorem accumulated_errors_no_properties:
  "properties backend = None \<Longrightarrow>
   accumulated_errors backend circuit = Inr [PyInt 0, PyInt 0, PyInt 0, PyInt 0, PyInt 0, PyInt 0]"
  by (simp add: accumulated_errors_def)

theorem accumulated_errors_no_properties_witness:
  "properties \<lparr>properties = None\<rparr> = None \<and>
   accumulated_errors \<lparr>properties = None\<rparr>
     \<lparr>num_qubits = 2,
      data = [\<lparr>operation_name = ''h'', qubits = [0]\<rparr>,
              \<lparr>operation_name = ''cx'', qubits = [0, 1]\<rparr>,
              \<lparr>operation_name = ''measure'', qubits = [0]\<rparr>,
              \<lparr>operation_name = ''measure'', qubits = [1]\<rparr>]\<rparr>
   = Inr [PyInt 0, PyInt 0, PyInt 0, PyInt 0, PyInt 0, PyInt 0]"
proof -
  have h: "properties \<lparr>properties = None\<rparr> = None" by simp
  from accumulated_errors_no_properties [OF h] h show ?thesis by simp
qed

end
